theory Spec2Isabelle
  imports Complex_Main "HOL-Library.Sublist"
begin

section \<open>The operator of \<^verbatim>\<open>ch_trees/gui.py\<close>\<close>

text \<open>
  The repository's source is the Blender operator \<^verbatim>\<open>TreeGen\<close> of
  \<^verbatim>\<open>src/ch_trees/gui.py\<close>. The generators it calls
  (\<^verbatim>\<open>parametric.gen.construct\<close>, \<^verbatim>\<open>lsystems.gen.construct\<close>) and the post-processing
  helper (\<^verbatim>\<open>utilities.simplify_branch_geometry\<close>) are other modules of the package; the
  operator is modelled with them as parameters. Every exception of the Python is a value
  \<open>Inl e\<close>; what the operator does to the outside (calls of the collaborators, writes to
  \<^verbatim>\<open>sys.stdout\<close>) is a list of events in the order they happen.

  The file does not load as it stands (lines 145--149 are notes, not Python, and line 84
  names \<^verbatim>\<open>self\<close> in the class body), so each method is modelled from its own text, as
  it would run once called.
\<close>

subsection \<open>Exceptions and events\<close>

text \<open>
  \<^verbatim>\<open>except Exception\<close> catches the subclasses of \<^verbatim>\<open>Exception\<close>;
  \<^verbatim>\<open>KeyboardInterrupt\<close> and \<^verbatim>\<open>SystemExit\<close> derive from \<^verbatim>\<open>BaseException\<close> only.
\<close>

datatype py_exception =
    AttributeError string
  | NameError string
  | ImportError string
  | RuntimeError string
  | ValueError string
  | KeyboardInterrupt
  | SystemExit

fun is_Exception :: "py_exception \<Rightarrow> bool" where
  "is_Exception KeyboardInterrupt = False"
| "is_Exception SystemExit = False"
| "is_Exception _ = True"

datatype 'p event =
    Call_parametric 'p int bool string bool
  | Call_lsystem string bool
  | Call_simplify
  | Stdout_write string
  | Stdout_flush
  | Stderr_traceback

type_synonym ('a, 'p) run = "(py_exception + 'a) \<times> 'p event list"

text \<open>One statement after another: the second runs only when the first did not raise.\<close>

definition then_do :: "('a, 'p) run \<Rightarrow> ('a \<Rightarrow> ('b, 'p) run) \<Rightarrow> ('b, 'p) run" where
  "then_do r k =
     (case r of
        (Inl e, evs) \<Rightarrow> (Inl e, evs)
      | (Inr a, evs) \<Rightarrow> (case k a of (r', evs') \<Rightarrow> (r', evs @ evs')))"

subsection \<open>The scene's inputs (lines 66--82)\<close>

record scene =
  tree_gen_method_input :: string
  para_tree_type_input :: string
  lsys_tree_type_input :: string
  seed_input :: int
  generate_leaves_input :: bool
  simplify_geometry_input :: bool
  render_input :: bool
  render_output_path_input :: string

record bl_context =
  scene :: scene

text \<open>
  An integer property as \<^verbatim>\<open>bpy.props.IntProperty(default=, min=, max=)\<close> declares it.
  \<^verbatim>\<open>min\<close> and \<^verbatim>\<open>max\<close> are Blender's hard limits: a value assigned below or above
  is stored as the limit. A value that does not fit a 32-bit C \<^verbatim>\<open>int\<close> is refused with
  \<^verbatim>\<open>ValueError\<close> before that, and the property keeps the value it had.
\<close>

record int_property =
  ip_default :: int
  ip_min :: int
  ip_max :: int

definition set_int_property :: "int_property \<Rightarrow> int \<Rightarrow> py_exception + int" where
  "set_int_property p v =
     (if v < - 2147483648 \<or> 2147483647 < v then Inl (ValueError ''value not in int range'')
      else Inr (max (ip_min p) (min (ip_max p) v)))"

text \<open>Line 75: \<^verbatim>\<open>seed_input = bpy.props.IntProperty(name="", default=0, min=0, max=9999999)\<close>.\<close>

definition seed_input_property :: int_property where
  "seed_input_property = \<lparr>ip_default = 0, ip_min = 0, ip_max = 9999999\<rparr>"

text \<open>The scene after the seed \<open>s\<close> has been supplied at the input (unchanged when refused).\<close>

definition supply_seed :: "int \<Rightarrow> scene \<Rightarrow> scene" where
  "supply_seed s sc =
     (case set_int_property seed_input_property s of
        Inl e \<Rightarrow> sc
      | Inr v \<Rightarrow> sc\<lparr>seed_input := v\<rparr>)"

subsection \<open>The collaborators\<close>

text \<open>
  \<open>'m\<close> is a loaded preset module, \<open>'p\<close> its \<^verbatim>\<open>params\<close> attribute. Each collaborator
  either returns or raises.
\<close>

record ('m, 'p) collaborators =
  import_module :: "string \<Rightarrow> py_exception + 'm"
  reload :: "'m \<Rightarrow> py_exception + 'm"
  params_of :: "'m \<Rightarrow> py_exception + 'p"
  parametric_construct :: "'p \<Rightarrow> int \<Rightarrow> bool \<Rightarrow> string \<Rightarrow> bool \<Rightarrow> py_exception + unit"
  lsystems_construct :: "string \<Rightarrow> bool \<Rightarrow> py_exception + unit"
  import_utilities :: "py_exception + unit"
  simplify_branch_geometry :: "bl_context \<Rightarrow> py_exception + unit"

text \<open>
  The attributes of Python's \<^verbatim>\<open>traceback\<close> module that do not start with an underscore:
  its functions and classes, and the modules it imports. An attribute that the module does
  not have raises \<^verbatim>\<open>AttributeError\<close> when it is looked up.
\<close>

definition traceback_names :: "string list" where
  "traceback_names =
     [''extract_stack'', ''extract_tb'', ''format_exception'', ''format_exception_only'',
      ''format_list'', ''format_stack'', ''format_tb'', ''print_exc'', ''format_exc'',
      ''print_exception'', ''print_last'', ''print_list'', ''print_stack'', ''print_tb'',
      ''clear_frames'', ''FrameSummary'', ''StackSummary'', ''TracebackException'',
      ''walk_stack'', ''walk_tb'', ''collections'', ''itertools'', ''linecache'', ''sys'']"

definition traceback_getattr :: "string \<Rightarrow> py_exception + string" where
  "traceback_getattr name =
     (if name \<in> set traceback_names then Inr name else Inl (AttributeError name))"

subsection \<open>\<^verbatim>\<open>TreeGen._construct\<close> (lines 96--126)\<close>

definition startswith :: "string \<Rightarrow> string \<Rightarrow> bool" where
  "startswith s pre = (take (length pre) s = pre)"

definition newline :: string where
  "newline = [CHR 0x0A]"

text \<open>Lines 100--109: the generator is chosen by the name of the selected tree type.\<close>

definition selected_mod_name :: "scene \<Rightarrow> string" where
  "selected_mod_name sc =
     (if tree_gen_method_input sc = ''parametric'' then para_tree_type_input sc
      else lsys_tree_type_input sc)"

definition generate_tree :: "('m, 'p) collaborators \<Rightarrow> scene \<Rightarrow> (unit, 'p) run" where
  "generate_tree env sc =
     (let mod_name = selected_mod_name sc in
      if startswith mod_name ''ch_trees.parametric'' then
        then_do (import_module env mod_name, []) (\<lambda>m.
        then_do (reload env m, []) (\<lambda>m'.
        then_do (params_of env m', []) (\<lambda>p.
          (parametric_construct env p (seed_input sc) (render_input sc)
             (render_output_path_input sc) (generate_leaves_input sc),
           [Call_parametric p (seed_input sc) (render_input sc)
             (render_output_path_input sc) (generate_leaves_input sc)]))))
      else
        (lsystems_construct env mod_name (generate_leaves_input sc),
         [Call_lsystem mod_name (generate_leaves_input sc)]))"

text \<open>
  Lines 119--123. The handler (\<^verbatim>\<open>except Exception as ex\<close>) never reads \<^verbatim>\<open>ex\<close>;
  its only statement evaluates \<^verbatim>\<open>traceback.print_exec()\<close> before anything is written. Had the attribute existed, the call would have printed the
  traceback to \<^verbatim>\<open>sys.stderr\<close> and returned \<^verbatim>\<open>None\<close>, which \<^verbatim>\<open>format\<close> renders
  as \<^verbatim>\<open>None\<close>.
\<close>

definition except_handler :: "py_exception \<Rightarrow> (unit, 'p) run" where
  "except_handler ex =
     then_do (traceback_getattr ''print_exec'', []) (\<lambda>_.
       (Inr (), [Stderr_traceback, Stdout_write (newline @ ''None'' @ newline), Stdout_flush]))"

definition try_simplify :: "('m, 'p) collaborators \<Rightarrow> bl_context \<Rightarrow> (unit, 'p) run" where
  "try_simplify env ctx =
     (case simplify_branch_geometry env ctx of
        Inr u \<Rightarrow> (Inr (), [Call_simplify])
      | Inl ex \<Rightarrow>
          if is_Exception ex then then_do (Inr (), [Call_simplify]) (\<lambda>_. except_handler ex)
          else (Inl ex, [Call_simplify]))"

text \<open>Lines 111--126.\<close>

definition simplify_tree :: "('m, 'p) collaborators \<Rightarrow> bl_context \<Rightarrow> (unit, 'p) run" where
  "simplify_tree env ctx =
     (if simplify_geometry_input (scene ctx) then
        then_do (import_utilities env, []) (\<lambda>_.
        then_do (Inr (),
          [Stdout_write (''Simplifying tree branch geometry. Blender will appear to crash; be patient.'' @ newline),
           Stdout_flush]) (\<lambda>_.
        then_do (try_simplify env ctx) (\<lambda>_.
          (Inr (),
           [Stdout_write (''Geometry simplification complete'' @ newline @ newline),
            Stdout_flush]))))
      else (Inr (), []))"

definition construct_tree :: "('m, 'p) collaborators \<Rightarrow> bl_context \<Rightarrow> (unit, 'p) run" where
  "construct_tree env ctx =
     then_do (generate_tree env (scene ctx)) (\<lambda>_. simplify_tree env ctx)"

subsection \<open>\<^verbatim>\<open>TreeGen.execute\<close> (lines 87--93)\<close>

text \<open>
  \<^verbatim>\<open>execute\<close> starts a thread whose target is \<^verbatim>\<open>_construct\<close> and returns the set
  \<^verbatim>\<open>{'FINISHED'}\<close>. The thread is never joined and its outcome is read nowhere:
  \<open>worker\<close> is what happens on that thread, \<open>returned\<close> is all the caller gets.
\<close>

record 'p execution =
  returned :: "string set"
  worker :: "(unit, 'p) run"

definition execute :: "('m, 'p) collaborators \<Rightarrow> bl_context \<Rightarrow> 'p execution" where
  "execute env ctx = \<lparr>returned = {''FINISHED''}, worker = construct_tree env ctx\<rparr>"

subsection \<open>The customizer's properties (lines 135--208)\<close>

text \<open>
  \<^verbatim>\<open>_initialize_customizer_params\<close> spells out the numeric inputs of a custom parameter
  set as \<^verbatim>\<open>bpy.props.FloatProperty\<close> and \<^verbatim>\<open>bpy.props.IntProperty\<close> declarations with
  hard limits. The declarations are modelled as the data they state. Nothing in
  \<^verbatim>\<open>gui.py\<close> puts them into effect: the method is never called (line 84 names
  \<^verbatim>\<open>_initialize_tree_customizer_params\<close>, in the class body, where \<^verbatim>\<open>self\<close> is not
  bound), lines 145--149 (the pruning inputs) are notes of intended ranges and not Python,
  and the enumeration of line 143 is declared with integer identifiers, which the property
  system refuses. The enumerations and the two \<^verbatim>\<open>Generate ...\<close> flags carry no numeric
  range; they and the pruning notes are not part of the record below.

  A float property holds a 32-bit float. Its declared limits and default are given here
  as the exact values the decimal literals have as 32-bit floats (\<^verbatim>\<open>.000001\<close> is
  \<open>8796093 / 2 ^ 43\<close>). A value of such a property is a number, an infinity or NaN; every
  real number stands for a possible finite value, which covers the representable ones.
\<close>

datatype float32 = Finite real | PosInf | NegInf | NaN



record float_property =
  fp_default :: real
  fp_min :: real
  fp_max :: real



text \<open>Line 153: \<^verbatim>\<open>FloatProperty(name="", default=13, min=.000001, max=150)\<close>.\<close>

definition g_scale_property :: float_property where
  "g_scale_property = \<lparr>fp_default = 13, fp_min = 8796093 / 8796093022208, fp_max = 150\<rparr>"

text \<open>Line 154: \<^verbatim>\<open>FloatProperty(name="", default=3, min=0, max=149.99)\<close>.\<close>

definition g_scale_v_property :: float_property where
  "g_scale_v_property = \<lparr>fp_default = 3, fp_min = 0, fp_max = 9829745 / 65536\<rparr>"

text \<open>Line 157: \<^verbatim>\<open>IntProperty(name="", default=3, min=1, max=6)\<close>.\<close>

definition tree_level_count_property :: int_property where
  "tree_level_count_property = \<lparr>ip_default = 3, ip_min = 1, ip_max = 6\<rparr>"

text \<open>Line 160: \<^verbatim>\<open>FloatProperty(name="", default=.015, min=.000001, max=1)\<close>.\<close>

definition tree_ratio_property :: float_property where
  "tree_ratio_property =
     \<lparr>fp_default = 16106127 / 1073741824, fp_min = 8796093 / 8796093022208, fp_max = 1\<rparr>"

text \<open>Line 161: \<^verbatim>\<open>FloatProperty(name="", default=1.2, min=0, max=5)\<close>.\<close>

definition tree_ratio_power_property :: float_property where
  "tree_ratio_power_property = \<lparr>fp_default = 5033165 / 4194304, fp_min = 0, fp_max = 5\<rparr>"

text \<open>Line 164: \<^verbatim>\<open>FloatProperty(name="", default=.6, min=0, max=10)\<close>.\<close>

definition tree_flare_property :: float_property where
  "tree_flare_property = \<lparr>fp_default = 5033165 / 8388608, fp_min = 0, fp_max = 10\<rparr>"

text \<open>Line 167: \<^verbatim>\<open>IntProperty(name="", default=0, min=0, max=500)\<close>.\<close>

definition tree_floor_split_property :: int_property where
  "tree_floor_split_property = \<lparr>ip_default = 0, ip_min = 0, ip_max = 500\<rparr>"

text \<open>Line 171: \<^verbatim>\<open>IntProperty(name="", default=0, min=0, max=10)\<close>.\<close>

definition tree_base_splits_limit_property :: int_property where
  "tree_base_splits_limit_property = \<lparr>ip_default = 0, ip_min = 0, ip_max = 10\<rparr>"

text \<open>Line 175: \<^verbatim>\<open>IntProperty(name="", default=40, min=0, max=3000)\<close>.\<close>

definition tree_leaf_blos_num_property :: int_property where
  "tree_leaf_blos_num_property = \<lparr>ip_default = 40, ip_min = 0, ip_max = 3000\<rparr>"

text \<open>Line 189: \<^verbatim>\<open>FloatProperty(name="", default=.17, min=.0001, max=1000)\<close>.\<close>

definition tree_leaf_scale_property :: float_property where
  "tree_leaf_scale_property =
     \<lparr>fp_default = 11408507 / 67108864, fp_min = 13743895 / 137438953472, fp_max = 1000\<rparr>"

text \<open>Line 192: \<^verbatim>\<open>FloatProperty(name="", default=1, min=.0001, max=1000)\<close>.\<close>

definition tree_leaf_scale_x_property :: float_property where
  "tree_leaf_scale_x_property =
     \<lparr>fp_default = 1, fp_min = 13743895 / 137438953472, fp_max = 1000\<rparr>"

text \<open>Line 195: \<^verbatim>\<open>FloatProperty(name="", default=.6, min=0, max=1)\<close>.\<close>

definition tree_leaf_bend_property :: float_property where
  "tree_leaf_bend_property = \<lparr>fp_default = 5033165 / 8388608, fp_min = 0, fp_max = 1\<rparr>"

text \<open>Line 205: \<^verbatim>\<open>FloatProperty(name="", default=1, min=.0001, max=1000)\<close>.\<close>

definition tree_blossom_scale_property :: float_property where
  "tree_blossom_scale_property =
     \<lparr>fp_default = 1, fp_min = 13743895 / 137438953472, fp_max = 1000\<rparr>"

text \<open>Line 208: \<^verbatim>\<open>FloatProperty(name="", default=0, min=0, max=1)\<close>.\<close>

definition tree_blossom_rate_property :: float_property where
  "tree_blossom_rate_property = \<lparr>fp_default = 0, fp_min = 0, fp_max = 1\<rparr>"

text \<open>The numeric inputs of a custom parameter set, and the flag of line 170.\<close>

record customizer =
  g_scale_input :: float32
  g_scale_v_input :: float32
  tree_level_count_input :: int
  tree_ratio_input :: float32
  tree_ratio_power_input :: float32
  tree_flare_input :: float32
  tree_floor_split_input :: int
  tree_base_splits_randomize_input :: bool
  tree_base_splits_limit_input :: int
  tree_leaf_blos_num_input :: int
  tree_leaf_scale :: float32
  tree_leaf_scale_x :: float32
  tree_leaf_bend_input :: float32
  tree_blossom_scale_input :: float32
  tree_blossom_rate_input :: float32

definition customizer_defaults :: customizer where
  "customizer_defaults =
     \<lparr>g_scale_input = Finite (fp_default g_scale_property),
      g_scale_v_input = Finite (fp_default g_scale_v_property),
      tree_level_count_input = ip_default tree_level_count_property,
      tree_ratio_input = Finite (fp_default tree_ratio_property),
      tree_ratio_power_input = Finite (fp_default tree_ratio_power_property),
      tree_flare_input = Finite (fp_default tree_flare_property),
      tree_floor_split_input = ip_default tree_floor_split_property,
      tree_base_splits_randomize_input = False,
      tree_base_splits_limit_input = ip_default tree_base_splits_limit_property,
      tree_leaf_blos_num_input = ip_default tree_leaf_blos_num_property,
      tree_leaf_scale = Finite (fp_default tree_leaf_scale_property),
      tree_leaf_scale_x = Finite (fp_default tree_leaf_scale_x_property),
      tree_leaf_bend_input = Finite (fp_default tree_leaf_bend_property),
      tree_blossom_scale_input = Finite (fp_default tree_blossom_scale_property),
      tree_blossom_rate_input = Finite (fp_default tree_blossom_rate_property)\<rparr>"




subsection \<open>\<^verbatim>\<open>TreeGen._get_params_from_customizer\<close> (lines 129--132)\<close>

text \<open>
  The method has one parameter, \<^verbatim>\<open>self\<close>, and assigns only \<^verbatim>\<open>tree_base_splits\<close>, so
  \<^verbatim>\<open>scene\<close> is looked up among the module's globals (no builtin has that name). It has
  no \<^verbatim>\<open>return\<close> statement: a call that reaches the end returns \<^verbatim>\<open>None\<close>. The model
  gives the value of the local variable at the end next to the returned value.
\<close>

datatype py_value = PyNone | PyInt int | PyBool bool

datatype py_object =
    Py_module string
  | Py_class string
  | Py_function string
  | Py_scene customizer

text \<open>The names bound at the top level of \<^verbatim>\<open>gui.py\<close>.\<close>

definition gui_globals :: "string \<rightharpoonup> py_object" where
  "gui_globals = map_of
     [(''bpy'', Py_module ''bpy''), (''traceback'', Py_module ''traceback''),
      (''threading'', Py_module ''threading''), (''imp'', Py_module ''imp''),
      (''sys'', Py_module ''sys''), (''os'', Py_module ''os''),
      (''parametric'', Py_module ''ch_trees.parametric''),
      (''lsystems'', Py_module ''ch_trees.lsystems''),
      (''_get_tree_types'', Py_function ''_get_tree_types''),
      (''TreeGen'', Py_class ''TreeGen''), (''TreeGenPanel'', Py_class ''TreeGenPanel'')]"

record getter_exit =
  tree_base_splits :: int
  return_value :: py_value

definition get_params_from_customizer ::
  "(string \<rightharpoonup> py_object) \<Rightarrow> py_exception + getter_exit" where
  "get_params_from_customizer globals =
     (case globals ''scene'' of
        None \<Rightarrow> Inl (NameError ''scene'')
      | Some (Py_scene sc) \<Rightarrow>
          (let tree_base_splits = tree_base_splits_limit_input sc;
               tree_base_splits =
                 (if tree_base_splits_randomize_input sc then tree_base_splits * 1
                  else tree_base_splits)
           in Inr \<lparr>tree_base_splits = tree_base_splits, return_value = PyNone\<rparr>)
      | Some other \<Rightarrow> Inl (AttributeError ''tree_base_splits_limit_input''))"

subsection \<open>Example inputs\<close>

definition example_scene :: scene where
  "example_scene =
     \<lparr>tree_gen_method_input = ''parametric'',
      para_tree_type_input = ''ch_trees.parametric.tree_params.quaking_aspen'',
      lsys_tree_type_input = ''ch_trees.lsystems.sys_defs.sympodial'',
      seed_input = 0,
      generate_leaves_input = True,
      simplify_geometry_input = False,
      render_input = False,
      render_output_path_input = ''/home/user/treegen_render.png''\<rparr>"

text \<open>Collaborators that all return; a preset's parameters stand for themselves as a number.\<close>

definition ok_env :: "(string, nat) collaborators" where
  "ok_env =
     \<lparr>import_module = (\<lambda>name. Inr name),
      reload = (\<lambda>m. Inr m),
      params_of = (\<lambda>m. Inr (length m)),
      parametric_construct = (\<lambda>p s r path l. Inr ()),
      lsystems_construct = (\<lambda>name l. Inr ()),
      import_utilities = Inr (),
      simplify_branch_geometry = (\<lambda>ctx. Inr ())\<rparr>"

definition failing_simplify_env :: "(string, nat) collaborators" where
  "failing_simplify_env =
     ok_env\<lparr>simplify_branch_geometry := (\<lambda>ctx. Inl (RuntimeError ''decimate failed''))\<rparr>"

definition failing_generator_env :: "(string, nat) collaborators" where
  "failing_generator_env =
     ok_env\<lparr>parametric_construct := (\<lambda>p s r path l. Inl (RuntimeError ''generation failed''))\<rparr>"

section \<open>The generators, from the specification\<close>

text \<open>
  The package's generator modules are not part of the source at hand. The two pieces of
  them that the claims below are about are modelled from the words of the specification
  (sections 3, 4.1, 4.2 and 7); every such definition says so.
\<close>

text \<open>Modelled from the spec: the error kinds of section 7 (the generators are missing).\<close>

datatype error_kind = InvalidParameter | MalformedGrammar | PruningExhausted | DegenerateGeometry

subsection \<open>The L-system interpreter\<close>

text \<open>
  Modelled from the spec: the Grammar of section 3 (\<^verbatim>\<open>lsystems\<close> is missing), an axiom
  string, production rules keyed by their left-hand symbol, and an iteration count.
\<close>

record grammar =
  axiom_string :: string
  rules :: "(char \<times> string) list"
  iterations :: nat

text \<open>
  Modelled from the spec: expansion (section 4.2, \<^verbatim>\<open>lsystems\<close> is missing). Every rule
  is applied to the current string once per iteration, all symbols at once; a symbol with
  no rule passes through unchanged.
\<close>

definition rewrite :: "(char \<times> string) list \<Rightarrow> char \<Rightarrow> string" where
  "rewrite rs c = (case map_of rs c of None \<Rightarrow> [c] | Some r \<Rightarrow> r)"

text \<open>Modelled from the spec: one synchronous rewrite of the whole string.\<close>

definition expand_once :: "(char \<times> string) list \<Rightarrow> string \<Rightarrow> string" where
  "expand_once rs s = concat (map (rewrite rs) s)"

text \<open>Modelled from the spec: the rewrite repeated for the fixed iteration depth.\<close>

primrec expand :: "(char \<times> string) list \<Rightarrow> nat \<Rightarrow> string \<Rightarrow> string" where
  "expand rs 0 s = s"
| "expand rs (Suc n) s = expand rs n (expand_once rs s)"

text \<open>Modelled from the spec: the string the turtle walks.\<close>

definition expansion :: "grammar \<Rightarrow> string" where
  "expansion g = expand (rules g) (iterations g) (axiom_string g)"

text \<open>
  Modelled from the spec: the fixed angles of section 4.2 (\<^verbatim>\<open>lsystems\<close> is missing):
  a symbol turns, pitches or rolls the turtle one way or the other.
\<close>

datatype rotation = Turn_left | Turn_right | Pitch_up | Pitch_down | Roll_left | Roll_right

text \<open>
  Modelled from the spec: the class of a symbol that is not a bracket (section 4.2): move
  and draw, move without drawing, rotate, or unknown.
\<close>

datatype symbol_class = Draw | Move | Rotate rotation | Unknown

text \<open>
  Modelled from the spec: what a grammar definition fixes globally (section 4.2): the
  step, the angles and which symbol belongs to which class. The specification names
  no characters but the brackets, and gives no formula for the step or the turns; \<open>'f\<close>
  is the turtle's frame (position and orientation).
\<close>

record 'f turtle_ops =
  advance :: "'f \<Rightarrow> 'f"
  rotate_frame :: "rotation \<Rightarrow> 'f \<Rightarrow> 'f"
  classify :: "char \<Rightarrow> symbol_class"

text \<open>
  Modelled from the spec: the TurtleState of section 3: position and orientation, pen
  width, colour index, and the index of the stem that drawn segments go into.
\<close>

record 'f turtle_state =
  frame :: 'f
  pen_width :: nat
  colour_index :: nat
  current_stem :: nat

text \<open>
  Modelled from the spec: the Stem of section 3: its level (0 for the trunk), its parent
  as an index into the flat sequence of stems (section 9), the frame it begins at, and
  its path segments.
\<close>

record 'f stem =
  level :: nat
  parent :: "nat option"
  origin :: 'f
  segments :: "('f \<times> 'f) list"

text \<open>
  Modelled from the spec: the interpreter's state: the turtle, the explicit stack of
  saved turtle states, the skeleton built so far, and the log of ignored symbols.
\<close>

record 'f interpreter =
  turtle :: "'f turtle_state"
  stack :: "'f turtle_state list"
  stems :: "'f stem list"
  ignored :: string

text \<open>Modelled from the spec: a drawn segment is emitted into the current stem.\<close>

definition emit_segment :: "nat \<Rightarrow> 'f \<times> 'f \<Rightarrow> 'f stem list \<Rightarrow> 'f stem list" where
  "emit_segment i seg ss =
     (if i < length ss then ss[i := (ss ! i)\<lparr>segments := segments (ss ! i) @ [seg]\<rparr>] else ss)"

text \<open>Modelled from the spec: the level of the stem with index \<open>i\<close>, if there is one.\<close>

definition stem_level :: "'f stem list \<Rightarrow> nat \<Rightarrow> nat" where
  "stem_level ss i = (if i < length ss then level (ss ! i) else 0)"

text \<open>
  Modelled from the spec: a branch opens (section 4.2). The specification lists the push
  of the state and the marker that begins a new stem parented to the current position, and
  says of the result that its parent/child stem relationships mirror the bracket nesting;
  the two are read together: \<^verbatim>\<open>[\<close> saves the turtle state and begins a stem at the
  current frame whose parent is the current stem, one level below it, and drawing
  continues in the new stem.
\<close>

definition open_branch :: "'f interpreter \<Rightarrow> 'f interpreter" where
  "open_branch s =
     (let t = turtle s in
      s\<lparr>turtle := t\<lparr>current_stem := length (stems s)\<rparr>,
        stack := t # stack s,
        stems := stems s @
          [\<lparr>level = Suc (stem_level (stems s) (current_stem t)),
            parent = Some (current_stem t), origin = frame t, segments = []\<rparr>]\<rparr>)"

text \<open>
  Modelled from the spec: one symbol (section 4.2). \<^verbatim>\<open>]\<close> restores the state saved by
  the matching \<^verbatim>\<open>[\<close>, the current stem with it, and is a hard error when nothing is
  saved; an unknown symbol is ignored and logged.
\<close>

definition turtle_step ::
  "'f turtle_ops \<Rightarrow> char \<Rightarrow> 'f interpreter \<Rightarrow> error_kind + 'f interpreter" where
  "turtle_step ops c s =
     (let t = turtle s in
      if c = CHR ''['' then Inr (open_branch s)
      else if c = CHR '']'' then
        (case stack s of
           [] \<Rightarrow> Inl MalformedGrammar
         | saved # rest \<Rightarrow> Inr (s\<lparr>turtle := saved, stack := rest\<rparr>))
      else
        (case classify ops c of
           Draw \<Rightarrow>
             Inr (s\<lparr>turtle := t\<lparr>frame := advance ops (frame t)\<rparr>,
                    stems := emit_segment (current_stem t)
                               (frame t, advance ops (frame t)) (stems s)\<rparr>)
         | Move \<Rightarrow> Inr (s\<lparr>turtle := t\<lparr>frame := advance ops (frame t)\<rparr>\<rparr>)
         | Rotate r \<Rightarrow> Inr (s\<lparr>turtle := t\<lparr>frame := rotate_frame ops r (frame t)\<rparr>\<rparr>)
         | Unknown \<Rightarrow> Inr (s\<lparr>ignored := ignored s @ [c]\<rparr>)))"

text \<open>Modelled from the spec: the turtle walks the string from left to right.\<close>

fun walk :: "'f turtle_ops \<Rightarrow> 'f interpreter \<Rightarrow> string \<Rightarrow> error_kind + 'f interpreter" where
  "walk ops s [] = Inr s"
| "walk ops s (c # w) =
     (case turtle_step ops c s of Inl e \<Rightarrow> Inl e | Inr s' \<Rightarrow> walk ops s' w)"

text \<open>Modelled from the spec: the start: the trunk as the only stem, nothing saved.\<close>

definition initial :: "'f \<Rightarrow> 'f interpreter" where
  "initial f0 =
     \<lparr>turtle = \<lparr>frame = f0, pen_width = 1, colour_index = 0, current_stem = 0\<rparr>,
      stack = [],
      stems = [\<lparr>level = 0, parent = None, origin = f0, segments = []\<rparr>],
      ignored = []\<rparr>"

text \<open>
  Modelled from the spec: interpretation of a whole string. Unmatched brackets abort
  generation (section 4.2): a state still saved at the end is an error as well.
\<close>

definition turtle_walk :: "'f turtle_ops \<Rightarrow> 'f \<Rightarrow> string \<Rightarrow> error_kind + 'f stem list" where
  "turtle_walk ops f0 w =
     (case walk ops (initial f0) w of
        Inl e \<Rightarrow> Inl e
      | Inr s \<Rightarrow> if stack s = [] then Inr (stems s) else Inl MalformedGrammar)"

text \<open>
  Modelled from the spec: the contract \<^verbatim>\<open>generate(grammar, iterations) -> Skeleton\<close> of
  section 4.2: expansion, then interpretation.
\<close>

definition lsystem_generate ::
  "'f turtle_ops \<Rightarrow> 'f \<Rightarrow> grammar \<Rightarrow> error_kind + 'f stem list" where
  "lsystem_generate ops f0 g = turtle_walk ops f0 (expansion g)"

text \<open>
  The depth of a stem in the skeleton, by its parent links: the number of steps from the
  stem with index \<open>i\<close> to a stem without parent. No chain is longer than the skeleton,
  which bounds the search.
\<close>

fun chain_depth :: "nat \<Rightarrow> 'f stem list \<Rightarrow> nat \<Rightarrow> nat" where
  "chain_depth 0 ss i = 0"
| "chain_depth (Suc fuel) ss i =
     (if i < length ss
      then (case parent (ss ! i) of None \<Rightarrow> 0 | Some j \<Rightarrow> Suc (chain_depth fuel ss j))
      else 0)"

definition parent_depth :: "'f stem list \<Rightarrow> nat \<Rightarrow> nat" where
  "parent_depth ss i = chain_depth (length ss) ss i"

text \<open>The number of path segments held by the stems of level \<open>d\<close>.\<close>

definition segments_at :: "'f stem list \<Rightarrow> nat \<Rightarrow> nat" where
  "segments_at ss d = (\<Sum>st\<leftarrow>ss. if level st = d then length (segments st) else 0)"

text \<open>
  Bracket structure, read off the string alone. A string is well formed when it has as
  many pushes as pops and no prefix has more pops than pushes (every pop has a prior
  push to match); it has an unmatched closing bracket when some prefix has more pops
  than pushes. A grammar is well formed when its axiom is and every rule keeps the
  brackets as they are and replaces its symbol by a well-formed string.
\<close>

definition pushes :: "string \<Rightarrow> nat" where
  "pushes w = count_list w (CHR ''['')"

definition pops :: "string \<Rightarrow> nat" where
  "pops w = count_list w (CHR '']'')"

definition well_formed :: "string \<Rightarrow> bool" where
  "well_formed w =
     (pushes w = pops w \<and> list_all (\<lambda>p. pops p \<le> pushes p) (prefixes w))"

definition unmatched_close :: "string \<Rightarrow> bool" where
  "unmatched_close w = list_ex (\<lambda>p. pushes p < pops p) (prefixes w)"

definition rule_well_formed :: "char \<times> string \<Rightarrow> bool" where
  "rule_well_formed r = (fst r \<noteq> CHR ''['' \<and> fst r \<noteq> CHR '']'' \<and> well_formed (snd r))"

definition grammar_well_formed :: "grammar \<Rightarrow> bool" where
  "grammar_well_formed g =
     (well_formed (axiom_string g) \<and> list_all rule_well_formed (rules g))"

text \<open>
  The bracket nesting, read off the string alone: for each opening bracket in order, the
  number of brackets open just inside it, starting from \<open>d\<close> open brackets.
\<close>

fun bracket_depths :: "nat \<Rightarrow> string \<Rightarrow> nat list" where
  "bracket_depths d [] = []"
| "bracket_depths d (c # w) =
     (if c = CHR ''['' then Suc d # bracket_depths (Suc d) w
      else if c = CHR '']'' then bracket_depths (d - 1) w
      else bracket_depths d w)"

text \<open>
  The number of drawing symbols of the string that stand inside exactly \<open>n\<close> open
  brackets, starting from \<open>d\<close> open brackets.
\<close>

fun draws_at :: "(char \<Rightarrow> symbol_class) \<Rightarrow> nat \<Rightarrow> string \<Rightarrow> nat \<Rightarrow> nat" where
  "draws_at cls d [] n = 0"
| "draws_at cls d (c # w) n =
     (if c = CHR ''['' then draws_at cls (Suc d) w n
      else if c = CHR '']'' then draws_at cls (d - 1) w n
      else if cls c = Draw \<and> d = n then Suc (draws_at cls d w n)
      else draws_at cls d w n)"

text \<open>
  The skeleton is linked when every stem but a root has an earlier stem as parent and
  lies one level below it; then the level of a stem is its depth by parent links.
\<close>

definition stems_linked :: "'f stem list \<Rightarrow> bool" where
  "stems_linked ss =
     (\<forall>i < length ss.
        case parent (ss ! i) of
          None \<Rightarrow> level (ss ! i) = 0
        | Some j \<Rightarrow> j < i \<and> level (ss ! i) = Suc (level (ss ! j)))"

text \<open>
  The turtle and the saved states, innermost first, each draw into a stem whose level is
  the number of states saved below it.
\<close>

fun frames_at :: "'f stem list \<Rightarrow> 'f turtle_state list \<Rightarrow> bool" where
  "frames_at ss [] = True"
| "frames_at ss (t # ts) =
     (current_stem t < length ss \<and> level (ss ! current_stem t) = length ts \<and> frames_at ss ts)"

definition walk_inv :: "'f interpreter \<Rightarrow> bool" where
  "walk_inv s = (stems_linked (stems s) \<and> frames_at (stems s) (turtle s # stack s))"

text \<open>
  Example: a turtle on the integer line, the grammar of the specification's scenario
  (section 8), and a grammar whose rule closes a bracket too many.
\<close>

definition example_ops :: "int turtle_ops" where
  "example_ops =
     \<lparr>advance = (\<lambda>x. x + 1),
      rotate_frame = (\<lambda>r x. x),
      classify = (\<lambda>c. if c = CHR ''F'' then Draw
                     else if c = CHR ''+'' then Rotate Turn_left
                     else if c = CHR ''-'' then Rotate Turn_right
                     else Unknown)\<rparr>"

definition example_grammar :: grammar where
  "example_grammar =
     \<lparr>axiom_string = ''F'', rules = [(CHR ''F'', ''F[+F]F[-F]F'')], iterations = 2\<rparr>"

definition unbalanced_grammar :: grammar where
  "unbalanced_grammar =
     \<lparr>axiom_string = ''F'', rules = [(CHR ''F'', ''F[+F]]F'')], iterations = 1\<rparr>"

subsection \<open>Pruning in the parametric generator\<close>









section \<open>Properties of the operator\<close>

subsection \<open>Auxiliary facts\<close>

lemma then_do_Inr: "then_do (Inr a, evs) k = (fst (k a), evs @ snd (k a))"
  by (simp add: then_do_def split: prod.splits)

lemma then_do_Inl: "then_do (Inl e, evs) k = (Inl e, evs)"
  by (simp add: then_do_def)

lemma traceback_print_exec:
  "traceback_getattr ''print_exec'' = Inl (AttributeError ''print_exec'')"
  by (simp add: traceback_getattr_def traceback_names_def)

lemma except_handler_raises: "except_handler ex = (Inl (AttributeError ''print_exec''), [])"
  by (simp add: except_handler_def then_do_Inl traceback_print_exec)

lemma selected_mod_name_supply_seed:
  "selected_mod_name (supply_seed s sc) = selected_mod_name sc"
  by (simp add: selected_mod_name_def supply_seed_def split: sum.splits)

lemma supply_seed_in_range:
  "0 \<le> s \<Longrightarrow> s \<le> 9999999 \<Longrightarrow> seed_input (supply_seed s sc) = s"
  by (simp add: supply_seed_def set_int_property_def seed_input_property_def)

lemma supply_seed_others:
  "render_input (supply_seed s sc) = render_input sc"
  "render_output_path_input (supply_seed s sc) = render_output_path_input sc"
  "generate_leaves_input (supply_seed s sc) = generate_leaves_input sc"
  by (simp_all add: supply_seed_def split: sum.splits)

lemma example_is_parametric:
  "startswith (selected_mod_name example_scene) ''ch_trees.parametric''"
  by (simp add: startswith_def selected_mod_name_def example_scene_def)




lemma get_params_never_returns_a_count:
  "get_params_from_customizer g \<noteq> Inr \<lparr>tree_base_splits = n, return_value = PyInt k\<rparr>"
  by (simp add: get_params_from_customizer_def Let_def split: option.splits py_object.splits)

subsection \<open>What the caller of \<^verbatim>\<open>execute\<close> receives\<close>

text \<open>
  Claim C2 says that the host-facing boundary receives a complete mesh or a structured
  error for every request, and that no error is lost between the core and the caller.
  It fails on the code: with a generator that raises, \<^verbatim>\<open>_construct\<close> ends with that
  exception on the worker thread, and the caller of \<^verbatim>\<open>execute\<close> still receives
  \<^verbatim>\<open>{'FINISHED'}\<close>.
\<close>

theorem execute_loses_error_counterexample:
  "fst (worker (execute failing_generator_env \<lparr>scene = example_scene\<rparr>))
     = Inl (RuntimeError ''generation failed'')
   \<and> returned (execute failing_generator_env \<lparr>scene = example_scene\<rparr>) = {''FINISHED''}"
  by (simp add: execute_def construct_tree_def generate_tree_def Let_def then_do_def
      failing_generator_env_def ok_env_def startswith_def selected_mod_name_def
      example_scene_def)

text \<open>
  Claim C2, amended: for every generation request \<^verbatim>\<open>execute\<close> hands \<^verbatim>\<open>_construct\<close> to a
  worker thread and returns \<^verbatim>\<open>{'FINISHED'}\<close> to the host, whatever the collaborators do;
  the outcome of \<^verbatim>\<open>_construct\<close>, an exception included, stays on the worker thread, and
  neither a mesh nor an error value is part of what the caller receives.
\<close>

theorem execute_returns_finished:
  "returned (execute env ctx) = {''FINISHED''} \<and> worker (execute env ctx) = construct_tree env ctx"
  by (simp add: execute_def)

subsection \<open>The seed\<close>

text \<open>
  Claim C9 says that every integer seed that is not negative is accepted and passed to
  the generator unchanged. It fails above the declared maximum of \<^verbatim>\<open>seed_input\<close>:
  the seed 10000000 is stored as 9999999, and that is what the parametric generator is
  called with.
\<close>

theorem seed_above_max_counterexample:
  "(0::int) \<le> 10000000
   \<and> seed_input (supply_seed 10000000 example_scene) = 9999999
   \<and> snd (generate_tree ok_env (supply_seed 10000000 example_scene))
       = [Call_parametric 45 9999999 False ''/home/user/treegen_render.png'' True]"
  by (simp add: supply_seed_def set_int_property_def seed_input_property_def
      generate_tree_def Let_def then_do_def ok_env_def startswith_def selected_mod_name_def
      example_scene_def)

text \<open>
  Claim C9, amended: every integer seed from 0 to 9999999 (the declared range of
  \<^verbatim>\<open>seed_input\<close>) is stored unchanged, and when the selected tree type is a parametric
  preset whose module loads, \<^verbatim>\<open>parametric.gen.construct\<close> is called exactly once, with
  that seed.
\<close>

theorem seed_passed_unchanged:
  assumes "0 \<le> s" and "s \<le> 9999999"
    and "startswith (selected_mod_name sc) ''ch_trees.parametric''"
    and "import_module env (selected_mod_name sc) = Inr m"
    and "reload env m = Inr m'"
    and "params_of env m' = Inr p"
  shows "seed_input (supply_seed s sc) = s
     \<and> snd (generate_tree env (supply_seed s sc))
         = [Call_parametric p s (render_input sc) (render_output_path_input sc)
              (generate_leaves_input sc)]"
  using assms
  by (simp add: generate_tree_def Let_def then_do_Inr selected_mod_name_supply_seed
      supply_seed_in_range supply_seed_others)

theorem seed_passed_unchanged_witness:
  "seed_input (supply_seed 42 example_scene) = 42
     \<and> snd (generate_tree ok_env (supply_seed 42 example_scene))
         = [Call_parametric 45 42 False ''/home/user/treegen_render.png'' True]"
  using seed_passed_unchanged [of 42 example_scene ok_env
      "''ch_trees.parametric.tree_params.quaking_aspen''"
      "''ch_trees.parametric.tree_params.quaking_aspen''" 45]
    example_is_parametric
  by (simp add: ok_env_def selected_mod_name_def example_scene_def)

subsection \<open>The ranges of a custom parameter set\<close>




subsection \<open>The base split count of the customizer\<close>

text \<open>
  Claim C7 says that, with the randomize flag set, the customizer's parameter getter
  multiplies the configured base split count by a factor drawn from a random source and
  returns the resulting count. The code does neither: called in the module as written it
  raises \<^verbatim>\<open>NameError\<close> for \<^verbatim>\<open>scene\<close>; with a scene bound to that name (limit 5,
  randomize set) the count is multiplied by the constant 1 and the call returns
  \<^verbatim>\<open>None\<close>.
\<close>

theorem get_params_returns_nothing:
  "get_params_from_customizer gui_globals = Inl (NameError ''scene'')
   \<and> get_params_from_customizer
        (gui_globals(''scene'' \<mapsto> Py_scene (customizer_defaults
           \<lparr>tree_base_splits_randomize_input := True, tree_base_splits_limit_input := 5\<rparr>)))
      = Inr \<lparr>tree_base_splits = 5, return_value = PyNone\<rparr>"
  by (simp add: get_params_from_customizer_def gui_globals_def)

subsection \<open>A failing simplification\<close>

text \<open>
  Claim C10 says that when geometry simplification is enabled and the simplification
  step raises, \<^verbatim>\<open>_construct\<close> catches the exception and the request completes normally.
  The handler is there, but its first expression looks up \<^verbatim>\<open>traceback.print_exec\<close>,
  which the module does not have: whenever the tree has been generated, simplification is
  enabled and \<^verbatim>\<open>simplify_branch_geometry\<close> raises an \<^verbatim>\<open>Exception\<close>, \<^verbatim>\<open>_construct\<close>
  ends with \<^verbatim>\<open>AttributeError\<close>, and the closing message is never written.
\<close>

theorem simplify_failure_aborts_construct:
  assumes "generate_tree env (scene ctx) = (Inr (), evs)"
    and "simplify_geometry_input (scene ctx)"
    and "import_utilities env = Inr ()"
    and "simplify_branch_geometry env ctx = Inl ex"
    and "is_Exception ex"
  shows "construct_tree env ctx =
    (Inl (AttributeError ''print_exec''),
     evs @ [Stdout_write (''Simplifying tree branch geometry. Blender will appear to crash; be patient.'' @ newline),
            Stdout_flush, Call_simplify])"
  using assms
  by (simp add: construct_tree_def simplify_tree_def try_simplify_def then_do_def
      except_handler_raises)

theorem simplify_failure_aborts_construct_witness:
  "construct_tree failing_simplify_env \<lparr>scene = example_scene\<lparr>simplify_geometry_input := True\<rparr>\<rparr> =
    (Inl (AttributeError ''print_exec''),
     [Call_parametric 45 0 False ''/home/user/treegen_render.png'' True,
      Stdout_write (''Simplifying tree branch geometry. Blender will appear to crash; be patient.'' @ newline),
      Stdout_flush, Call_simplify])"
proof -
  let ?ctx = "\<lparr>scene = example_scene\<lparr>simplify_geometry_input := True\<rparr>\<rparr>"
  have g: "generate_tree failing_simplify_env (scene ?ctx) =
     (Inr (), [Call_parametric 45 0 False ''/home/user/treegen_render.png'' True])"
    by (simp add: generate_tree_def Let_def then_do_def failing_simplify_env_def ok_env_def
        startswith_def selected_mod_name_def example_scene_def)
  have s: "simplify_geometry_input (scene ?ctx)" by simp
  have i: "import_utilities failing_simplify_env = Inr ()"
    by (simp add: failing_simplify_env_def ok_env_def)
  have f: "simplify_branch_geometry failing_simplify_env ?ctx
             = Inl (RuntimeError ''decimate failed'')"
    by (simp add: failing_simplify_env_def ok_env_def)
  have e: "is_Exception (RuntimeError ''decimate failed'')" by simp
  show ?thesis
    using simplify_failure_aborts_construct [OF g s i f e] by simp
qed

section \<open>Properties of the modelled generators\<close>

subsection \<open>Auxiliary facts about the interpreter\<close>

lemma pushes_simps [simp]:
  "pushes [] = 0"
  "pushes (c # w) = (if c = CHR ''['' then Suc (pushes w) else pushes w)"
  by (auto simp: pushes_def)

lemma pops_simps [simp]:
  "pops [] = 0"
  "pops (c # w) = (if c = CHR '']'' then Suc (pops w) else pops w)"
  by (auto simp: pops_def)

lemma pushes_append [simp]: "pushes (u @ v) = pushes u + pushes v"
  by (induction u) simp_all

lemma pops_append [simp]: "pops (u @ v) = pops u + pops v"
  by (induction u) simp_all

lemma chain_depth_level:
  "stems_linked ss \<Longrightarrow> i < length ss \<Longrightarrow> i < fuel \<Longrightarrow> chain_depth fuel ss i = level (ss ! i)"
proof (induction fuel arbitrary: i)
  case 0
  then show ?case by simp
next
  case (Suc fuel)
  show ?case
  proof (cases "parent (ss ! i)")
    case None
    with Suc.prems show ?thesis by (auto simp: stems_linked_def)
  next
    case (Some j)
    with Suc.prems have j: "j < i" "level (ss ! i) = Suc (level (ss ! j))"
      by (auto simp: stems_linked_def)
    with Suc.prems have "chain_depth fuel ss j = level (ss ! j)"
      by (intro Suc.IH) auto
    with Some j Suc.prems show ?thesis by simp
  qed
qed

lemma parent_depth_level:
  assumes "stems_linked ss"
  shows "map (parent_depth ss) [0..<length ss] = map level ss"
  using assms by (auto intro!: nth_equalityI simp: parent_depth_def chain_depth_level)

lemma frames_at_append: "frames_at ss ts \<Longrightarrow> frames_at (ss @ xs) ts"
  by (induction ts) (auto simp: nth_append)

lemma stems_linked_append:
  assumes "stems_linked ss" and "j < length ss" and "level st = Suc (level (ss ! j))"
    and "parent st = Some j"
  shows "stems_linked (ss @ [st])"
  unfolding stems_linked_def
proof (intro allI impI)
  fix i assume "i < length (ss @ [st])"
  then consider "i < length ss" | "i = length ss" by fastforce
  then show "case parent ((ss @ [st]) ! i) of
          None \<Rightarrow> level ((ss @ [st]) ! i) = 0
        | Some j \<Rightarrow> j < i \<and> level ((ss @ [st]) ! i) = Suc (level ((ss @ [st]) ! j))"
  proof cases
    case 1
    with assms(1) show ?thesis
      by (auto simp: stems_linked_def nth_append split: option.splits)
  next
    case 2
    with assms(2-4) show ?thesis by (simp add: nth_append)
  qed
qed

lemma length_emit_segment [simp]: "length (emit_segment i seg ss) = length ss"
  by (simp add: emit_segment_def)

lemma level_emit_segment [simp]: "level (emit_segment i seg ss ! k) = level (ss ! k)"
  by (simp add: emit_segment_def nth_list_update)

lemma parent_emit_segment [simp]: "parent (emit_segment i seg ss ! k) = parent (ss ! k)"
  by (simp add: emit_segment_def nth_list_update)

lemma map_level_emit_segment [simp]: "map level (emit_segment i seg ss) = map level ss"
  by (auto intro!: nth_equalityI)

lemma stems_linked_emit_segment [simp]:
  "stems_linked (emit_segment i seg ss) = stems_linked ss"
  by (simp add: stems_linked_def cong: option.case_cong)

lemma frames_at_emit_segment [simp]: "frames_at (emit_segment i seg ss) ts = frames_at ss ts"
  by (induction ts) simp_all

lemma sum_list_map_update:
  fixes f :: "'a \<Rightarrow> nat"
  shows "i < length xs \<Longrightarrow> sum_list (map f (xs[i := y])) + f (xs ! i) = sum_list (map f xs) + f y"
  by (induction xs arbitrary: i) (auto split: nat.splits)

lemma segments_at_emit_segment:
  assumes "i < length ss"
  shows "segments_at (emit_segment i seg ss) d
           = segments_at ss d + (if level (ss ! i) = d then 1 else 0)"
proof -
  let ?f = "\<lambda>st::'a stem. if level st = d then length (segments st) else 0"
  let ?y = "(ss ! i)\<lparr>segments := segments (ss ! i) @ [seg]\<rparr>"
  from assms have "sum_list (map ?f (ss[i := ?y])) + ?f (ss ! i) = sum_list (map ?f ss) + ?f ?y"
    by (rule sum_list_map_update)
  with assms show ?thesis
    by (simp add: segments_at_def emit_segment_def split: if_splits)
qed

lemma segments_at_append [simp]:
  "segments_at (ss @ xs) d = segments_at ss d + segments_at xs d"
  by (simp add: segments_at_def)

lemma step_push: "turtle_step ops (CHR ''['') s = Inr (open_branch s)"
  by (simp add: turtle_step_def)

lemma step_pop_empty: "stack s = [] \<Longrightarrow> turtle_step ops (CHR '']'') s = Inl MalformedGrammar"
  by (simp add: turtle_step_def)

lemma step_pop:
  "stack s = t # rest \<Longrightarrow> turtle_step ops (CHR '']'') s = Inr (s\<lparr>turtle := t, stack := rest\<rparr>)"
  by (simp add: turtle_step_def)

lemma stack_open_branch [simp]: "stack (open_branch s) = turtle s # stack s"
  by (simp add: open_branch_def Let_def)

lemma open_branch_inv:
  assumes "walk_inv s"
  shows "walk_inv (open_branch s)"
    and "map level (stems (open_branch s)) = map level (stems s) @ [Suc (length (stack s))]"
    and "segments_at (stems (open_branch s)) d = segments_at (stems s) d"
proof -
  let ?t = "turtle s" and ?ss = "stems s"
  let ?st = "\<lparr>level = Suc (stem_level ?ss (current_stem ?t)),
            parent = Some (current_stem ?t), origin = frame ?t, segments = []\<rparr>"
  from assms have cur: "current_stem ?t < length ?ss"
    and lev: "level (?ss ! current_stem ?t) = length (stack s)"
    and fr: "frames_at ?ss (?t # stack s)" and li: "stems_linked ?ss"
    by (simp_all add: walk_inv_def)
  from cur lev have sl: "stem_level ?ss (current_stem ?t) = length (stack s)"
    by (simp add: stem_level_def)
  have st: "stems (open_branch s) = ?ss @ [?st]"
    and tu: "turtle (open_branch s) = ?t\<lparr>current_stem := length ?ss\<rparr>"
    by (simp_all add: open_branch_def Let_def)
  from li cur sl lev have "stems_linked (?ss @ [?st])"
    by (intro stems_linked_append) simp_all
  moreover from fr have "frames_at (?ss @ [?st]) (?t # stack s)"
    by (rule frames_at_append)
  ultimately show "walk_inv (open_branch s)"
    using sl by (simp add: walk_inv_def st tu)
  show "map level (stems (open_branch s)) = map level (stems s) @ [Suc (length (stack s))]"
    using sl by (simp add: st)
  show "segments_at (stems (open_branch s)) d = segments_at (stems s) d"
    by (simp add: st segments_at_def)
qed

lemma step_other_stack:
  assumes "c \<noteq> CHR ''[''" and "c \<noteq> CHR '']''"
  shows "\<exists>s'. turtle_step ops c s = Inr s' \<and> stack s' = stack s"
  using assms by (cases "classify ops c") (simp_all add: turtle_step_def Let_def)

lemma step_other_inv:
  assumes "c \<noteq> CHR ''[''" and "c \<noteq> CHR '']''" and "walk_inv s"
  shows "\<exists>s'. turtle_step ops c s = Inr s' \<and> stack s' = stack s \<and> walk_inv s'
     \<and> map level (stems s') = map level (stems s)
     \<and> (\<forall>d. segments_at (stems s') d
           = segments_at (stems s) d
             + (if classify ops c = Draw \<and> length (stack s) = d then 1 else 0))"
proof (cases "classify ops c")
  case Draw
  from assms(3) have cur: "current_stem (turtle s) < length (stems s)"
    and lev: "level (stems s ! current_stem (turtle s)) = length (stack s)"
    by (simp_all add: walk_inv_def)
  from assms Draw cur lev show ?thesis
    by (simp add: turtle_step_def Let_def walk_inv_def segments_at_emit_segment)
next
  case Move
  with assms show ?thesis by (simp add: turtle_step_def Let_def walk_inv_def)
next
  case (Rotate r)
  with assms show ?thesis by (simp add: turtle_step_def Let_def walk_inv_def)
next
  case Unknown
  with assms show ?thesis by (simp add: turtle_step_def Let_def walk_inv_def)
qed

lemma walk_append:
  "walk ops s (u @ v) = (case walk ops s u of Inl e \<Rightarrow> Inl e | Inr s' \<Rightarrow> walk ops s' v)"
  by (induction u arbitrary: s) (simp_all split: sum.splits)

text \<open>
  The stack discipline: a walk that never closes more brackets than it has opened on top
  of a base leaves the base as it is.
\<close>

lemma walk_keeps_base:
  assumes "stack s = upper @ base"
    and "\<forall>p \<in> set (prefixes w). pops p \<le> pushes p + length upper"
  shows "\<exists>s' upper'. walk ops s w = Inr s' \<and> stack s' = upper' @ base
     \<and> length upper' + pops w = length upper + pushes w"
  using assms
proof (induction w arbitrary: s upper)
  case Nil
  then show ?case by simp
next
  case (Cons c w)
  from Cons.prems(2) have rest:
    "\<forall>p \<in> set (prefixes w). pops (c # p) \<le> pushes (c # p) + length upper"
    by simp
  show ?case
  proof (cases "c = CHR ''[''")
    case True
    from Cons.prems(1) have st: "stack (open_branch s) = (turtle s # upper) @ base" by simp
    from rest True
    have "\<forall>p \<in> set (prefixes w). pops p \<le> pushes p + length (turtle s # upper)"
      by simp
    from Cons.IH [OF st this] True show ?thesis
      by (auto simp: step_push)
  next
    case False
    show ?thesis
    proof (cases "c = CHR '']''")
      case True
      have "[] \<in> set (prefixes w)" by (simp add: in_set_prefixes)
      with rest have "pops [c] \<le> pushes [c] + length upper" by blast
      with True have "0 < length upper" by auto
      then obtain t ts where upper: "upper = t # ts" by (cases upper) auto
      let ?s1 = "s\<lparr>turtle := t, stack := ts @ base\<rparr>"
      from Cons.prems(1) upper have ss: "stack s = t # (ts @ base)" by simp
      have st: "stack ?s1 = ts @ base" by simp
      from rest True upper have "\<forall>p \<in> set (prefixes w). pops p \<le> pushes p + length ts"
        by simp
      from Cons.IH [OF st this] True upper ss show ?thesis
        by (auto simp: step_pop)
    next
      case notpop: False
      from step_other_stack [OF False notpop, of ops s] obtain s1 where
        s1: "turtle_step ops c s = Inr s1" "stack s1 = stack s"
        by blast
      from s1 Cons.prems(1) have st: "stack s1 = upper @ base" by simp
      from rest False notpop
      have "\<forall>p \<in> set (prefixes w). pops p \<le> pushes p + length upper"
        by simp
      from Cons.IH [OF st this] False notpop s1 show ?thesis
        by auto
    qed
  qed
qed

text \<open>
  The invariant of the walk: each opening bracket begins a stem at the level of the
  brackets open inside it, and each drawing symbol adds a segment at the level of the
  brackets open around it.
\<close>

lemma walk_levels:
  assumes "walk_inv s" and "walk ops s w = Inr s'"
  shows "walk_inv s'
     \<and> map level (stems s') = map level (stems s) @ bracket_depths (length (stack s)) w
     \<and> (\<forall>d. segments_at (stems s') d
           = segments_at (stems s) d + draws_at (classify ops) (length (stack s)) w d)"
  using assms
proof (induction w arbitrary: s)
  case Nil
  then show ?case by simp
next
  case (Cons c w)
  show ?case
  proof (cases "c = CHR ''[''")
    case True
    with Cons.prems(2) have w: "walk ops (open_branch s) w = Inr s'"
      by (simp add: step_push)
    note ob = open_branch_inv [OF Cons.prems(1)]
    from Cons.IH [OF ob(1) w] ob(2,3) True show ?thesis
      by simp
  next
    case False
    show ?thesis
    proof (cases "c = CHR '']''")
      case True
      with Cons.prems(2) obtain t ts where st: "stack s = t # ts"
        by (cases "stack s") (auto simp: step_pop_empty)
      let ?s1 = "s\<lparr>turtle := t, stack := ts\<rparr>"
      from Cons.prems(2) True st have w: "walk ops ?s1 w = Inr s'"
        by (simp add: step_pop)
      from Cons.prems(1) st have "walk_inv ?s1"
        by (simp add: walk_inv_def)
      from Cons.IH [OF this w] True st show ?thesis
        by simp
    next
      case notpop: False
      from step_other_inv [OF False notpop Cons.prems(1), of ops] obtain s1 where
        s1: "turtle_step ops c s = Inr s1" "stack s1 = stack s" "walk_inv s1"
          "map level (stems s1) = map level (stems s)"
          "\<forall>d. segments_at (stems s1) d
             = segments_at (stems s) d
               + (if classify ops c = Draw \<and> length (stack s) = d then 1 else 0)"
        by blast
      from Cons.prems(2) s1(1) have w: "walk ops s1 w = Inr s'" by simp
      from Cons.IH [OF s1(3) w] s1(2,4,5) False notpop show ?thesis
        by simp
    qed
  qed
qed

lemma walk_unmatched:
  assumes "\<exists>p \<in> set (prefixes w). pushes p + length (stack s) < pops p"
  shows "walk ops s w = Inl MalformedGrammar"
  using assms
proof (induction w arbitrary: s)
  case Nil
  then show ?case by simp
next
  case (Cons c w)
  from Cons.prems have rest:
    "\<exists>p \<in> set (prefixes w). pushes (c # p) + length (stack s) < pops (c # p)"
    by simp
  show ?case
  proof (cases "c = CHR ''[''")
    case True
    from rest True
    have "\<exists>p \<in> set (prefixes w). pushes p + length (stack (open_branch s)) < pops p"
      by simp
    from Cons.IH [OF this] True show ?thesis
      by (simp add: step_push)
  next
    case False
    show ?thesis
    proof (cases "c = CHR '']''")
      case True
      show ?thesis
      proof (cases "stack s")
        case Nil
        with True show ?thesis by (simp add: step_pop_empty)
      next
        case (Cons t ts)
        let ?s1 = "s\<lparr>turtle := t, stack := ts\<rparr>"
        from rest True Cons
        have "\<exists>p \<in> set (prefixes w). pushes p + length (stack ?s1) < pops p"
          by simp
        from Cons.IH [OF this] True Cons show ?thesis
          by (simp add: step_pop)
      qed
    next
      case notpop: False
      from step_other_stack [OF False notpop, of ops s] obtain s1 where
        s1: "turtle_step ops c s = Inr s1" "stack s1 = stack s"
        by blast
      from rest False notpop s1
      have "\<exists>p \<in> set (prefixes w). pushes p + length (stack s1) < pops p"
        by simp
      from Cons.IH [OF this] s1 show ?thesis
        by simp
    qed
  qed
qed

text \<open>Rewriting a well-formed string by well-formed rules keeps it well formed.\<close>

lemma rewrite_net:
  assumes "list_all rule_well_formed rs"
  shows "pushes (rewrite rs c) + pops [c] = pops (rewrite rs c) + pushes [c]"
proof (cases "map_of rs c")
  case None
  then show ?thesis by (simp add: rewrite_def)
next
  case (Some r)
  then have "(c, r) \<in> set rs" by (rule map_of_SomeD)
  with assms have "rule_well_formed (c, r)" by (simp add: list_all_iff)
  with Some show ?thesis by (simp add: rewrite_def rule_well_formed_def well_formed_def)
qed

lemma rewrite_prefixes:
  assumes "list_all rule_well_formed rs" and "q \<in> set (prefixes (rewrite rs c))"
  shows "pops q \<le> pushes q + pops [c]"
proof (cases "map_of rs c")
  case None
  with assms(2) show ?thesis by (auto simp: rewrite_def)
next
  case (Some r)
  then have "(c, r) \<in> set rs" by (rule map_of_SomeD)
  with assms(1) have "rule_well_formed (c, r)" by (simp add: list_all_iff)
  with Some assms(2) show ?thesis
    by (auto simp: rewrite_def rule_well_formed_def well_formed_def list_all_iff)
qed

lemma expand_once_Cons: "expand_once rs (c # w) = rewrite rs c @ expand_once rs w"
  by (simp add: expand_once_def)

lemma expand_once_net:
  assumes "list_all rule_well_formed rs"
  shows "pushes (expand_once rs w) + pops w = pops (expand_once rs w) + pushes w"
proof (induction w)
  case Nil
  show ?case by (simp add: expand_once_def)
next
  case (Cons c w)
  from rewrite_net [OF assms, of c] Cons show ?case
    by (simp add: expand_once_Cons split: if_splits)
qed

lemma expand_once_prefixes:
  assumes "list_all rule_well_formed rs"
    and "\<forall>p \<in> set (prefixes w). pops p + a \<le> pushes p + b"
  shows "\<forall>p \<in> set (prefixes (expand_once rs w)). pops p + a \<le> pushes p + b"
  using assms(2)
proof (induction w arbitrary: a b)
  case Nil
  then show ?case by (simp add: expand_once_def)
next
  case (Cons c w)
  let ?x = "rewrite rs c"
  from Cons.prems have ab: "a \<le> b" by simp
  have "[c] \<in> set (prefixes (c # w))" by (simp add: in_set_prefixes)
  with Cons.prems have c: "pops [c] + a \<le> pushes [c] + b" by blast
  from Cons.prems
  have "\<forall>p \<in> set (prefixes w). pops p + (a + pops [c]) \<le> pushes p + (b + pushes [c])"
    by (auto split: if_splits)
  from Cons.IH [OF this]
  have ih: "\<forall>q \<in> set (prefixes (expand_once rs w)).
      pops q + (a + pops [c]) \<le> pushes q + (b + pushes [c])" .
  note net = rewrite_net [OF assms(1), of c]
  show ?case
  proof
    fix p assume "p \<in> set (prefixes (expand_once rs (c # w)))"
    then have "prefix p (?x @ expand_once rs w)"
      by (simp add: in_set_prefixes expand_once_Cons)
    then consider "prefix p ?x" | q where "p = ?x @ q" "prefix q (expand_once rs w)"
      by (auto simp: prefix_append)
    then show "pops p + a \<le> pushes p + b"
    proof cases
      case 1
      then have "pops p \<le> pushes p + pops [c]"
        by (intro rewrite_prefixes [OF assms(1)]) (simp add: in_set_prefixes)
      with ab c show ?thesis by (auto split: if_splits)
    next
      case 2
      with ih have "pops q + (a + pops [c]) \<le> pushes q + (b + pushes [c])"
        by (simp add: in_set_prefixes)
      with net 2(1) show ?thesis by simp
    qed
  qed
qed

lemma well_formed_expand_once:
  assumes "list_all rule_well_formed rs" and "well_formed w"
  shows "well_formed (expand_once rs w)"
proof -
  from assms(2) have "\<forall>p \<in> set (prefixes w). pops p + 0 \<le> pushes p + 0"
    by (simp add: well_formed_def list_all_iff)
  from expand_once_prefixes [OF assms(1) this]
  have "\<forall>p \<in> set (prefixes (expand_once rs w)). pops p \<le> pushes p" by simp
  moreover from expand_once_net [OF assms(1), of w] assms(2)
  have "pushes (expand_once rs w) = pops (expand_once rs w)"
    by (simp add: well_formed_def)
  ultimately show ?thesis by (simp add: well_formed_def list_all_iff)
qed

lemma well_formed_expand:
  assumes "list_all rule_well_formed rs"
  shows "well_formed w \<Longrightarrow> well_formed (expand rs n w)"
  by (induction n arbitrary: w) (simp_all add: well_formed_expand_once [OF assms])

lemma grammar_well_formed_expansion:
  "grammar_well_formed g \<Longrightarrow> well_formed (expansion g)"
  by (simp add: grammar_well_formed_def expansion_def well_formed_expand)

lemma walk_inv_initial: "walk_inv (initial f0)"
  by (simp add: walk_inv_def initial_def stems_linked_def)

text \<open>A bracketed group of a well-formed string leaves the turtle and the stack as they were.\<close>

lemma walk_group:
  assumes "well_formed u"
  shows "\<exists>s'. walk ops s (CHR ''['' # u @ '']'') = Inr s'
     \<and> turtle s' = turtle s \<and> stack s' = stack s"
proof -
  have st: "stack (open_branch s) = [] @ (turtle s # stack s)" by simp
  from assms have "\<forall>p \<in> set (prefixes u). pops p \<le> pushes p + length ([] :: 'a turtle_state list)"
    by (simp add: well_formed_def list_all_iff)
  from walk_keeps_base [OF st this, of ops] obtain s1 upper where
    s1: "walk ops (open_branch s) u = Inr s1" "stack s1 = upper @ (turtle s # stack s)"
      "length upper + pops u = length ([] :: 'a turtle_state list) + pushes u"
    by blast
  from s1(3) assms have "upper = []" by (simp add: well_formed_def)
  with s1 show ?thesis
    by (simp add: step_push walk_append step_pop)
qed

lemma expansion_example:
  "expansion example_grammar
     = ''F[+F]F[-F]F[+F[+F]F[-F]F]F[+F]F[-F]F[-F[+F]F[-F]F]F[+F]F[-F]F''"
  by (simp add: expansion_def example_grammar_def expand_once_def rewrite_def numeral_2_eq_2)

lemma expansion_unbalanced: "expansion unbalanced_grammar = ''F[+F]]F''"
  by (simp add: expansion_def unbalanced_grammar_def expand_once_def rewrite_def)

lemma grammar_well_formed_example: "grammar_well_formed example_grammar"
  by (simp add: grammar_well_formed_def example_grammar_def rule_well_formed_def well_formed_def)

lemma unmatched_close_example: "unmatched_close ''F[+F]]F''"
  by (simp add: unmatched_close_def)

lemma bracket_depths_example:
  "bracket_depths 0 ''F[+F]F[-F]F[+F[+F]F[-F]F]F[+F]F[-F]F[-F[+F]F[-F]F]F[+F]F[-F]F''
     = [1, 1, 1, 2, 2, 1, 1, 1, 2, 2, 1, 1]"
  by simp

lemma draws_at_example:
  "draws_at (classify example_ops) 0
     ''F[+F]F[-F]F[+F[+F]F[-F]F]F[+F]F[-F]F[-F[+F]F[-F]F]F[+F]F[-F]F'' 0 = 9"
  "draws_at (classify example_ops) 0
     ''F[+F]F[-F]F[+F[+F]F[-F]F]F[+F]F[-F]F[-F[+F]F[-F]F]F[+F]F[-F]F'' 1 = 12"
  "draws_at (classify example_ops) 0
     ''F[+F]F[-F]F[+F[+F]F[-F]F]F[+F]F[-F]F[-F[+F]F[-F]F]F[+F]F[-F]F'' 2 = 4"
  by (simp_all add: example_ops_def)

subsection \<open>Bracket balance\<close>

text \<open>
  Claim C4: for every well-formed grammar (as many pushes as pops, every pop matching a
  prior push) the L-system interpreter produces a skeleton whose parent/child nesting
  depth matches the bracket nesting, and for every grammar with an unmatched closing
  bracket generation fails with \<open>MalformedGrammar\<close>; the extra pop is not ignored.
  In full: a well-formed grammar expands to a well-formed string. For a well-formed
  expansion the interpreter returns a skeleton in which the stems are the trunk and, in
  order, one stem per opening bracket; the depth of each stem by its parent links, and
  its level, is the number of brackets open inside the bracket that began it; and the
  stems of each level hold as many segments as there are drawing symbols inside that many
  open brackets. A bracketed group restores exactly the turtle state and stack it
  started from. An expansion in which some prefix closes more brackets than it opens
  gives \<open>MalformedGrammar\<close>.
\<close>

theorem bracket_balance:
  "(grammar_well_formed g \<longrightarrow> well_formed (expansion g))
   \<and> (well_formed (expansion g) \<longrightarrow>
        (\<exists>sk. lsystem_generate ops f0 g = Inr sk
           \<and> map (parent_depth sk) [0..<length sk] = 0 # bracket_depths 0 (expansion g)
           \<and> map level sk = 0 # bracket_depths 0 (expansion g)
           \<and> (\<forall>d. segments_at sk d = draws_at (classify ops) 0 (expansion g) d)))
   \<and> (well_formed u \<longrightarrow>
        (\<exists>s'. walk ops s (CHR ''['' # u @ '']'') = Inr s'
           \<and> turtle s' = turtle s \<and> stack s' = stack s))
   \<and> (unmatched_close (expansion g) \<longrightarrow> lsystem_generate ops f0 g = Inl MalformedGrammar)"
proof (intro conjI impI)
  assume "grammar_well_formed g"
  then show "well_formed (expansion g)" by (rule grammar_well_formed_expansion)
next
  assume wf: "well_formed (expansion g)"
  let ?w = "expansion g"
  have st: "stack (initial f0) = [] @ []" by (simp add: initial_def)
  from wf have "\<forall>p \<in> set (prefixes ?w). pops p \<le> pushes p + length ([] :: 'a turtle_state list)"
    by (simp add: well_formed_def list_all_iff)
  from walk_keeps_base [OF st this, of ops] obtain s' upper where
    s': "walk ops (initial f0) ?w = Inr s'" "stack s' = upper @ []"
      "length upper + pops ?w = length ([] :: 'a turtle_state list) + pushes ?w"
    by blast
  from s'(2,3) wf have empty: "stack s' = []" by (simp add: well_formed_def)
  from walk_levels [OF walk_inv_initial s'(1)]
  have inv: "walk_inv s'"
    and lev: "map level (stems s') = 0 # bracket_depths 0 ?w"
    and seg: "\<forall>d. segments_at (stems s') d = draws_at (classify ops) 0 ?w d"
    by (simp_all add: initial_def segments_at_def)
  from inv have "map (parent_depth (stems s')) [0..<length (stems s')] = map level (stems s')"
    by (intro parent_depth_level) (simp add: walk_inv_def)
  with lev seg s'(1) empty
  show "\<exists>sk. lsystem_generate ops f0 g = Inr sk
           \<and> map (parent_depth sk) [0..<length sk] = 0 # bracket_depths 0 (expansion g)
           \<and> map level sk = 0 # bracket_depths 0 (expansion g)
           \<and> (\<forall>d. segments_at sk d = draws_at (classify ops) 0 (expansion g) d)"
    by (simp add: lsystem_generate_def turtle_walk_def)
next
  assume "well_formed u"
  then show "\<exists>s'. walk ops s (CHR ''['' # u @ '']'') = Inr s'
           \<and> turtle s' = turtle s \<and> stack s' = stack s"
    by (rule walk_group)
next
  assume "unmatched_close (expansion g)"
  then have "\<exists>p \<in> set (prefixes (expansion g)).
      pushes p + length (stack (initial f0)) < pops p"
    by (auto simp: unmatched_close_def initial_def list_ex_iff)
  from walk_unmatched [OF this] show "lsystem_generate ops f0 g = Inl MalformedGrammar"
    by (simp add: lsystem_generate_def turtle_walk_def)
qed

theorem bracket_balance_witness:
  "grammar_well_formed example_grammar
   \<and> (\<exists>sk. lsystem_generate example_ops 0 example_grammar = Inr sk
         \<and> map (parent_depth sk) [0..<length sk] = [0, 1, 1, 1, 2, 2, 1, 1, 1, 2, 2, 1, 1]
         \<and> segments_at sk 0 = 9 \<and> segments_at sk 1 = 12 \<and> segments_at sk 2 = 4)
   \<and> well_formed ''+F''
   \<and> (\<exists>s'. walk example_ops (initial 0) ''[+F]'' = Inr s'
         \<and> turtle s' = turtle (initial 0) \<and> stack s' = stack (initial 0))
   \<and> unmatched_close (expansion unbalanced_grammar)
   \<and> lsystem_generate example_ops 0 unbalanced_grammar = Inl MalformedGrammar"
proof -
  note t1 = bracket_balance [of example_grammar example_ops 0 "''+F''" "initial 0"]
  note t2 = bracket_balance [of unbalanced_grammar example_ops 0 "''+F''" "initial 0"]
  have gw: "grammar_well_formed example_grammar" by (rule grammar_well_formed_example)
  from t1 [THEN conjunct1] gw have wfe: "well_formed (expansion example_grammar)"
    by (rule mp)
  from t1 [THEN conjunct2, THEN conjunct1] wfe
  have "\<exists>sk. lsystem_generate example_ops 0 example_grammar = Inr sk
      \<and> map (parent_depth sk) [0..<length sk] = 0 # bracket_depths 0 (expansion example_grammar)
      \<and> map level sk = 0 # bracket_depths 0 (expansion example_grammar)
      \<and> (\<forall>d. segments_at sk d
            = draws_at (classify example_ops) 0 (expansion example_grammar) d)"
    by (rule mp)
  then obtain sk where
    sk: "lsystem_generate example_ops 0 example_grammar = Inr sk"
      "map (parent_depth sk) [0..<length sk] = 0 # bracket_depths 0 (expansion example_grammar)"
      "map level sk = 0 # bracket_depths 0 (expansion example_grammar)"
      "\<forall>d. segments_at sk d = draws_at (classify example_ops) 0 (expansion example_grammar) d"
    by (elim exE conjE) (rule that, assumption+)
  from sk(2) have d: "map (parent_depth sk) [0..<length sk]
      = [0, 1, 1, 1, 2, 2, 1, 1, 1, 2, 2, 1, 1]"
    unfolding expansion_example bracket_depths_example by simp
  from sk(4) have n: "segments_at sk 0 = 9" "segments_at sk 1 = 12" "segments_at sk 2 = 4"
    unfolding expansion_example by (simp_all only: draws_at_example)
  from sk(1) d n have ok: "\<exists>sk. lsystem_generate example_ops 0 example_grammar = Inr sk
         \<and> map (parent_depth sk) [0..<length sk] = [0, 1, 1, 1, 2, 2, 1, 1, 1, 2, 2, 1, 1]
         \<and> segments_at sk 0 = 9 \<and> segments_at sk 1 = 12 \<and> segments_at sk 2 = 4"
    by (intro exI [of _ sk] conjI)
  have wu: "well_formed ''+F''" by (simp add: well_formed_def)
  from t1 [THEN conjunct2, THEN conjunct2, THEN conjunct1] wu
  have "\<exists>s'. walk example_ops (initial 0) (CHR ''['' # ''+F'' @ '']'') = Inr s'
         \<and> turtle s' = turtle (initial 0) \<and> stack s' = stack (initial 0)"
    by (rule mp)
  then have gr: "\<exists>s'. walk example_ops (initial 0) ''[+F]'' = Inr s'
         \<and> turtle s' = turtle (initial 0) \<and> stack s' = stack (initial 0)"
    by simp
  have um: "unmatched_close (expansion unbalanced_grammar)"
    by (simp only: expansion_unbalanced unmatched_close_example)
  from t2 [THEN conjunct2, THEN conjunct2, THEN conjunct2] um
  have bad: "lsystem_generate example_ops 0 unbalanced_grammar = Inl MalformedGrammar"
    by (rule mp)
  from gw ok wu gr um bad show ?thesis by (intro conjI)
qed

subsection \<open>Pruning\<close>








end
